theory Spec2Isabelle
  imports Complex_Main
begin

section \<open>Shared vocabulary\<close>

text \<open>
  The exceptions that the two programs can meet. \<open>OtherError\<close> stands for whatever an
  external call (the model, the capture device, the display) raises.
\<close>

datatype py_error =
    RuntimeError
  | ValueError
  | IndexError
  | ZeroDivisionError
  | KeyboardInterrupt
  | AttributeError
  | ConnectionClosed
  | JSONDecodeError
  | RecursionError
  | UnicodeDecodeError
  | OSError
  | OtherError

text \<open>
  A \<open>cv2.VideoCapture\<close> object, as far as the programs look at it: whether
  \<open>isOpened()\<close> holds.
\<close>

datatype capture = Capture (isOpened: bool)

section \<open>lstm/collect\_data.py: the feature pipeline\<close>

text \<open>
  Python floats are modelled as reals: rounding, signed zeros, infinities and NaN are
  outside the model. A float division by zero raises \<open>ZeroDivisionError\<close> in Python
  and is written out wherever the source divides.
\<close>

text \<open>
  \<open>numpy.arctan2\<close> and \<open>numpy.degrees\<close> over the reals. The real arctangent of two
  arguments lies in the interval from \<open>-pi\<close> (excluded) to \<open>pi\<close> (included); numpy's,
  computed in floats, can round to \<open>-pi\<close> itself.
\<close>

definition arctan2 :: "real \<Rightarrow> real \<Rightarrow> real" where
  "arctan2 y x =
     (if 0 < x then arctan (y / x)
      else if x < 0 \<and> 0 \<le> y then arctan (y / x) + pi
      else if x < 0 \<and> y < 0 then arctan (y / x) - pi
      else if 0 < y then pi / 2
      else if y < 0 then - (pi / 2)
      else 0)"

definition degrees :: "real \<Rightarrow> real" where
  "degrees r = r * 180 / pi"

text \<open>
  The dictionary built by \<open>calculate_features\<close>, and the same dictionary after
  \<open>features.update\<close> has added the three derivatives.
\<close>

record features =
  head_x :: real
  head_y :: real
  heart_x :: real
  heart_y :: real
  body_orientation :: real
  timestamp :: real

record feature_record = features +
  velocity_x :: real
  velocity_y :: real
  angular_velocity :: real

text \<open>
  \<open>calculate_features(keypoints)\<close>. A keypoint row is the pair of its first two
  entries; \<open>now\<close> is what \<open>time.time()\<close> returns. Unpacking \<open>keypoints[:3]\<close> into
  three names raises \<open>ValueError\<close> when there are fewer than three rows.
\<close>

fun calculate_features :: "(real \<times> real) list \<Rightarrow> real \<Rightarrow> py_error + features" where
  "calculate_features (head # heart # tail # rest) now =
     (let head_to_heart = (fst heart - fst head, snd heart - snd head);
          heart_to_tail = (fst tail - fst heart, snd tail - snd heart);
          mean_direction = ((fst head_to_heart + fst heart_to_tail) / 2,
                            (snd head_to_heart + snd heart_to_tail) / 2);
          orientation = degrees (arctan2 (snd mean_direction) (fst mean_direction))
      in Inr \<lparr>head_x = fst head, head_y = snd head,
              heart_x = fst heart, heart_y = snd heart,
              body_orientation = orientation, timestamp = now\<rparr>)"
| "calculate_features keypoints now = Inl ValueError"

text \<open>\<open>features.update({'velocity_x': .., 'velocity_y': .., 'angular_velocity': ..})\<close>\<close>

definition update :: "features \<Rightarrow> real \<Rightarrow> real \<Rightarrow> real \<Rightarrow> feature_record" where
  "update f vx vy av =
     \<lparr>head_x = head_x f, head_y = head_y f, heart_x = heart_x f, heart_y = heart_y f,
      body_orientation = body_orientation f, timestamp = timestamp f,
      velocity_x = vx, velocity_y = vy, angular_velocity = av\<rparr>"

definition max_time_gap :: real where
  "max_time_gap = 0.1"

definition fixed_track_id :: int where
  "fixed_track_id = 0"

text \<open>
  Lines 94 to 115 of \<open>collect_data\<close>: the derivatives of the new features against
  \<open>prev_features[fixed_track_id]\<close>. The three quotients are Python float divisions, so
  a zero \<open>time_diff\<close> raises.
\<close>

definition add_velocities ::
  "(int \<rightharpoonup> feature_record) \<Rightarrow> features \<Rightarrow> py_error + feature_record" where
  "add_velocities prev_features f =
     (case prev_features fixed_track_id of
        Some prev \<Rightarrow>
          (let time_diff = timestamp f - timestamp prev
           in if time_diff \<le> max_time_gap then
                (if time_diff = 0 then Inl ZeroDivisionError
                 else Inr (update f
                        ((heart_x f - heart_x prev) / time_diff)
                        ((heart_y f - heart_y prev) / time_diff)
                        ((body_orientation f - body_orientation prev) / time_diff)))
              else Inr (update f 0 0 0))
      | None \<Rightarrow> Inr (update f 0 0 0))"

text \<open>
  One result of \<open>model.track\<close>: \<open>result.boxes.id\<close> (absent when nothing is tracked),
  \<open>result.keypoints\<close> (absent, or one list of rows per detection) and
  \<open>result.boxes.conf\<close>.
\<close>

record track_result =
  boxes_id :: "int list option"
  keypoints :: "(real \<times> real) list list option"
  conf :: "real list"

text \<open>\<open>confidences.argmax()\<close>: the first index of the largest confidence.\<close>

fun argmax_from :: "nat \<Rightarrow> real \<Rightarrow> nat \<Rightarrow> real list \<Rightarrow> nat" where
  "argmax_from best bv i [] = best"
| "argmax_from best bv i (c # cs) =
     (if bv < c then argmax_from i c (Suc i) cs else argmax_from best bv (Suc i) cs)"

definition argmax :: "real list \<Rightarrow> py_error + nat" where
  "argmax cs = (case cs of [] \<Rightarrow> Inl OtherError | c # rest \<Rightarrow> Inr (argmax_from 0 c 1 rest))"

text \<open>
  What the collector owns: the capture object, the history (a \<open>defaultdict\<close> of lists)
  and, as a trace, the effects of \<open>save_data\<close> and \<open>cleanup\<close> in the order they happen.
\<close>

datatype effect = Saved "(int \<times> feature_record list) list" | Released

record collector =
  video :: "capture option"
  feature_history :: "(int \<times> feature_record list) list"
  effects :: "effect list"

text \<open>
  \<open>self.feature_history[k]\<close> on the \<open>defaultdict\<close>: a missing key is created with an
  empty list. The dictionary is kept as an association list in insertion order.
\<close>

definition touch :: "int \<Rightarrow> (int \<times> feature_record list) list \<Rightarrow> (int \<times> feature_record list) list" where
  "touch k h = (case map_of h k of Some v \<Rightarrow> h | None \<Rightarrow> h @ [(k, [])])"

definition append_record ::
  "int \<Rightarrow> feature_record \<Rightarrow> (int \<times> feature_record list) list \<Rightarrow> (int \<times> feature_record list) list" where
  "append_record k r h = map (\<lambda>(k', v). if k' = k then (k', v @ [r]) else (k', v)) (touch k h)"

text \<open>
  Lines 81 to 118: the body of one iteration between \<open>model.track\<close> and the progress
  report. It returns the history and \<open>prev_features\<close> after the iteration.
\<close>

definition process_result ::
  "(int \<times> feature_record list) list \<Rightarrow> (int \<rightharpoonup> feature_record) \<Rightarrow> track_result \<Rightarrow> real \<Rightarrow>
     py_error + ((int \<times> feature_record list) list \<times> (int \<rightharpoonup> feature_record))" where
  "process_result h prev_features res now =
     (case (boxes_id res, keypoints res) of
        (Some track_ids, Some kps) \<Rightarrow>
          (if length track_ids > 0 then
             (case argmax (conf res) of
                Inl e \<Rightarrow> Inl e
              | Inr max_conf_idx \<Rightarrow>
                  (if max_conf_idx < length kps then
                     (case calculate_features (kps ! max_conf_idx) now of
                        Inl e \<Rightarrow> Inl e
                      | Inr f \<Rightarrow>
                          (case add_velocities prev_features f of
                             Inl e \<Rightarrow> Inl e
                           | Inr r \<Rightarrow>
                               Inr (append_record fixed_track_id r h,
                                    prev_features(fixed_track_id \<mapsto> r))))
                   else Inl IndexError))
           else Inr (h, prev_features))
      | _ \<Rightarrow> Inr (h, prev_features))"

text \<open>
  What one pass of the \<open>while True\<close> loop meets: a frame that was read, with the
  tracker's result, the clock and whether \<open>q\<close> was pressed; or an exception raised by
  an external call of the iteration. The list of events ends where \<open>video.read()\<close>
  returns no frame.
\<close>

datatype event = Frame track_result real bool | Raise py_error

text \<open>
  The body of the \<open>try\<close>: it returns the exception that left it, if any, and the
  collector as it then is.
\<close>

fun loop ::
  "int \<Rightarrow> collector \<Rightarrow> (int \<rightharpoonup> feature_record) \<Rightarrow> event list \<Rightarrow> py_error option \<times> collector" where
  "loop total_frames c prev_features [] = (None, c)"
| "loop total_frames c prev_features (Raise e # evs) = (Some e, c)"
| "loop total_frames c prev_features (Frame res now q # evs) =
     (case process_result (feature_history c) prev_features res now of
        Inl e \<Rightarrow> (Some e, c)
      | Inr (h, prev_features') \<Rightarrow>
          (let c1 = c\<lparr>feature_history := h\<rparr>
           in if total_frames = 0 then (Some ZeroDivisionError, c1)
              else
                (let c2 = c1\<lparr>feature_history := touch 0 h\<rparr>
                 in if q then (None, c2) else loop total_frames c2 prev_features' evs)))"

definition initialize_video :: "bool \<Rightarrow> collector \<Rightarrow> py_error option \<times> collector" where
  "initialize_video opens c =
     (let c1 = c\<lparr>video := Some (Capture opens)\<rparr>
      in if \<not> opens then (Some RuntimeError, c1) else (None, c1))"

text \<open>
  \<open>save_data\<close>: \<open>os.makedirs\<close>, \<open>open\<close> and \<open>pickle.dump\<close> can raise (an
  \<open>OSError\<close> of the file system, or a \<open>KeyboardInterrupt\<close> that arrives meanwhile);
  \<open>save_raises\<close> is that exception, if any. The snapshot counts as saved only when
  the function completes.
\<close>

definition save_data :: "py_error option \<Rightarrow> collector \<Rightarrow> py_error option \<times> collector" where
  "save_data save_raises c =
     (case save_raises of
        Some e \<Rightarrow> (Some e, c)
      | None \<Rightarrow> (None, c\<lparr>effects := effects c @ [Saved (feature_history c)]\<rparr>))"

definition cleanup :: "collector \<Rightarrow> collector" where
  "cleanup c =
     (case video c of
        Some v \<Rightarrow> c\<lparr>video := Some (Capture False), effects := effects c @ [Released]\<rparr>
      | None \<Rightarrow> c)"

text \<open>
  \<open>collect_data\<close>: \<open>opens\<close> says whether the video file can be opened and
  \<open>total_frames\<close> is the frame count the capture reports. \<open>KeyboardInterrupt\<close> is
  caught; every other exception leaves the function after the \<open>finally\<close> block.
  In the \<open>finally\<close> block an exception of \<open>save_data\<close> leaves at once, so that
  \<open>cleanup\<close> is not reached, and replaces the exception of the loop.
\<close>

definition collect_data ::
  "bool \<Rightarrow> int \<Rightarrow> event list \<Rightarrow> py_error option \<Rightarrow> collector \<Rightarrow>
     py_error option \<times> collector" where
  "collect_data opens total_frames evs save_raises c =
     (case initialize_video opens c of
        (Some e, c1) \<Rightarrow> (Some e, c1)
      | (None, c1) \<Rightarrow>
          (let (raised, c2) = loop total_frames c1 Map.empty evs;
               leaving = (if raised = Some KeyboardInterrupt then None else raised)
           in case save_data save_raises c2 of
                (Some e, c3) \<Rightarrow> (Some e, c3)
              | (None, c3) \<Rightarrow> (leaving, cleanup c3)))"

section \<open>main.py: the streaming session\<close>

text \<open>
  A value that \<open>json.loads\<close> returns. An object is the Python \<open>dict\<close> it was parsed
  into, as an association list that holds each key once.
\<close>

datatype json =
    JNull
  | JBool bool
  | JInt int
  | JFloat real
  | JStr string
  | JArr "json list"
  | JObj "(string \<times> json) list"

text \<open>
  A message as the connection delivers it: the \<open>str\<close> of a text frame or the
  \<open>bytes\<close> of a binary frame.
\<close>

datatype frame = Text string | Binary string

text \<open>
  What the session is given from outside the repository: \<open>json.loads\<close>, Python's text
  for floats, lists and dicts, and the camera behind \<open>cv2.VideoCapture(0)\<close>.
  \<open>json.loads\<close> returns a value or raises: \<open>JSONDecodeError\<close> on malformed text, but
  also \<open>RecursionError\<close> on deep nesting, a plain \<open>ValueError\<close> on an integer with
  too many digits, and \<open>UnicodeDecodeError\<close> on bytes that are not valid UTF-8.
\<close>

record env =
  loads :: "frame \<Rightarrow> py_error + json"
  repr_other :: "json \<Rightarrow> string"
  camera_opens :: bool
  camera_width :: int
  camera_height :: int

fun str_nat :: "nat \<Rightarrow> string" where
  "str_nat n =
     (if n < 10 then [''0123456789'' ! n]
      else str_nat (n div 10) @ [''0123456789'' ! (n mod 10)])"

definition str_int :: "int \<Rightarrow> string" where
  "str_int i = (if i < 0 then CHR ''-'' # str_nat (nat (- i)) else str_nat (nat i))"

text \<open>The text that the f-string \<open>f'{command}'\<close> puts in for a value.\<close>

fun py_str :: "env \<Rightarrow> json \<Rightarrow> string" where
  "py_str E JNull = ''None''"
| "py_str E (JBool b) = (if b then ''True'' else ''False'')"
| "py_str E (JInt i) = str_int i"
| "py_str E (JStr s) = s"
| "py_str E v = repr_other E v"

text \<open>
  \<open>data.get('action')\<close>: only a dict has \<open>get\<close>; a missing key gives \<open>None\<close>.
\<close>

fun get_action :: "json \<Rightarrow> py_error + json" where
  "get_action (JObj kvs) =
     (case map_of kvs ''action'' of Some v \<Rightarrow> Inr v | None \<Rightarrow> Inr JNull)"
| "get_action v = Inl AttributeError"

text \<open>
  A message sent to the client, \<open>json.dumps({'type': t, 'message': m})\<close>, and the
  connection: whether it is open, what has been sent on it, and how many push loops
  \<open>asyncio.create_task\<close> has started for it.
\<close>

datatype message = Msg (msg_type: string) (msg_text: string)

record connection =
  ws_open :: bool
  sent :: "message list"
  push_tasks :: nat

definition send :: "connection \<Rightarrow> message \<Rightarrow> py_error option \<times> connection" where
  "send w m =
     (if ws_open w then (None, w\<lparr>sent := sent w @ [m]\<rparr>) else (Some ConnectionClosed, w))"

record video_processor =
  camera :: "capture option"
  is_streaming :: bool
  frame_width :: "int option"
  frame_height :: "int option"

definition initialize_camera :: "env \<Rightarrow> video_processor \<Rightarrow> py_error option \<times> video_processor" where
  "initialize_camera E p =
     (case camera p of
        None \<Rightarrow>
          (let p1 = p\<lparr>camera := Some (Capture (camera_opens E))\<rparr>
           in if \<not> camera_opens E then (Some RuntimeError, p1)
              else (None, p1\<lparr>frame_width := Some (camera_width E),
                              frame_height := Some (camera_height E)\<rparr>))
      | Some cam \<Rightarrow> (None, p))"

definition release_camera :: "video_processor \<Rightarrow> video_processor" where
  "release_camera p = (case camera p of Some cam \<Rightarrow> p\<lparr>camera := None\<rparr> | None \<Rightarrow> p)"

text \<open>
  \<open>handle_message\<close>: the exception that leaves it, if any, and the session and the
  connection as they then are. Only \<open>JSONDecodeError\<close> is caught.
\<close>

definition handle_message ::
  "env \<Rightarrow> video_processor \<Rightarrow> connection \<Rightarrow> frame \<Rightarrow>
     py_error option \<times> video_processor \<times> connection" where
  "handle_message E p w msg =
     (case loads E msg of
        Inl raised \<Rightarrow>
          (if raised = JSONDecodeError then
             (let (e, w1) = send w (Msg ''error'' ''Invalid JSON format'') in (e, p, w1))
           else (Some raised, p, w))
      | Inr data \<Rightarrow>
          (case get_action data of
             Inl e \<Rightarrow> (Some e, p, w)
           | Inr command \<Rightarrow>
               (if command = JStr ''start'' then
                  (if \<not> is_streaming p then
                     (case initialize_camera E p of
                        (Some e, p1) \<Rightarrow> (Some e, p1, w)
                      | (None, p1) \<Rightarrow>
                          (let p2 = p1\<lparr>is_streaming := True\<rparr>;
                               w1 = w\<lparr>push_tasks := Suc (push_tasks w)\<rparr>;
                               (e, w2) = send w1 (Msg ''response'' ''Camera streaming started'')
                           in (e, p2, w2)))
                   else (None, p, w))
                else if command = JStr ''stop'' then
                  (let p1 = release_camera (p\<lparr>is_streaming := False\<rparr>);
                       (e, w1) = send w (Msg ''response'' ''Camera streaming stopped'')
                   in (e, p1, w1))
                else
                  (let (e, w1) = send w (Msg ''error'' (''Unknown command: '' @ py_str E command))
                   in (e, p, w1)))))"

text \<open>The \<open>async for\<close> of \<open>handle_connection\<close> over the messages that arrive.\<close>

fun dispatch ::
  "env \<Rightarrow> video_processor \<Rightarrow> connection \<Rightarrow> frame list \<Rightarrow>
     py_error option \<times> video_processor \<times> connection" where
  "dispatch E p w [] = (None, p, w)"
| "dispatch E p w (msg # msgs) =
     (case handle_message E p w msg of
        (Some e, p1, w1) \<Rightarrow> (Some e, p1, w1)
      | (None, p1, w1) \<Rightarrow> dispatch E p1 w1 msgs)"

text \<open>
  \<open>handle_connection\<close>: \<open>ConnectionClosed\<close> is caught, any other exception leaves the
  handler after the \<open>finally\<close> block.
\<close>

definition handle_connection ::
  "env \<Rightarrow> video_processor \<Rightarrow> connection \<Rightarrow> frame list \<Rightarrow>
     py_error option \<times> video_processor \<times> connection" where
  "handle_connection E p w msgs =
     (let (raised, p1, w1) =
            (case send w (Msg ''info'' ''Connected to Video Processor'') of
               (Some e, w0) \<Rightarrow> (Some e, p, w0)
             | (None, w0) \<Rightarrow> dispatch E p w0 msgs);
          leaving = (if raised = Some ConnectionClosed then None else raised)
      in (leaving, release_camera (p1\<lparr>is_streaming := False\<rparr>), w1))"

section \<open>The derivatives as the specification words them\<close>

text \<open>
  A list of records in which each one stands in the relation \<open>P\<close> to the one before it
  (and the first one to \<open>previous\<close>).
\<close>

fun consecutive ::
  "(feature_record option \<Rightarrow> feature_record \<Rightarrow> bool) \<Rightarrow> feature_record option \<Rightarrow>
     feature_record list \<Rightarrow> bool" where
  "consecutive P previous [] = True"
| "consecutive P previous (r # rs) = (P previous r \<and> consecutive P (Some r) rs)"

text \<open>
  After the specification: with a previous record at most 0.1 s older, \<open>velocity_x\<close> and
  \<open>velocity_y\<close> are the finite differences of \<open>heart_x\<close> and \<open>heart_y\<close> over the time
  difference; with an older previous record, or none, the three derivatives are zero.
\<close>

definition velocities_as_specified :: "feature_record option \<Rightarrow> feature_record \<Rightarrow> bool" where
  "velocities_as_specified previous r =
     (case previous of
        None \<Rightarrow> velocity_x r = 0 \<and> velocity_y r = 0 \<and> angular_velocity r = 0
      | Some p \<Rightarrow>
          (if timestamp r - timestamp p \<le> 0.1 then
             velocity_x r = (heart_x r - heart_x p) / (timestamp r - timestamp p)
             \<and> velocity_y r = (heart_y r - heart_y p) / (timestamp r - timestamp p)
           else velocity_x r = 0 \<and> velocity_y r = 0 \<and> angular_velocity r = 0))"

text \<open>
  After the specification: the shortest signed angle from \<open>b\<close> to \<open>a\<close>, that is the
  difference \<open>a - b\<close> brought into the interval from -180 (excluded) to 180 (included)
  by a multiple of 360.
\<close>

definition shortest_signed_angle :: "real \<Rightarrow> real \<Rightarrow> real" where
  "shortest_signed_angle a b = (let d = a - b in d - 360 * of_int \<lceil>(d - 180) / 360\<rceil>)"

text \<open>
  What the code computes instead: against a previous record at most 0.1 s older, the
  plain difference of the two orientations over the time difference.
\<close>

definition angular_velocity_unwrapped :: "feature_record option \<Rightarrow> feature_record \<Rightarrow> bool" where
  "angular_velocity_unwrapped previous r =
     (case previous of
        None \<Rightarrow> True
      | Some p \<Rightarrow>
          (timestamp r - timestamp p \<le> 0.1 \<longrightarrow>
             angular_velocity r =
               (body_orientation r - body_orientation p) / (timestamp r - timestamp p)))"

text \<open>
  The invariant of the loop: the history holds nothing, or the one list of the fixed
  track, whose records are consecutive, and \<open>prev_features\<close> holds the last of them.
\<close>

definition history_inv ::
  "(feature_record option \<Rightarrow> feature_record \<Rightarrow> bool) \<Rightarrow> (int \<times> feature_record list) list \<Rightarrow>
     (int \<rightharpoonup> feature_record) \<Rightarrow> bool" where
  "history_inv P h prev_features =
     ((h = [] \<and> prev_features fixed_track_id = None)
      \<or> (\<exists>rs. h = [(fixed_track_id, rs)] \<and> consecutive P None rs
             \<and> prev_features fixed_track_id = (if rs = [] then None else Some (last rs))))"

section \<open>Concrete sessions used in the examples\<close>

text \<open>
  \<open>json.loads\<close> on the frames of the examples: five texts that parse, the binary
  frame of the four bytes 0x80, a, b, c, which is not UTF-8, and a text of 100000 opening
  brackets, which nests too deep; every other frame is taken as malformed JSON there.
\<close>

definition example_loads :: "frame \<Rightarrow> py_error + json" where
  \<open>example_loads m =
     (case m of
        Text s \<Rightarrow>
          (if s = ''{"action": "start"}'' then Inr (JObj [(''action'', JStr ''start'')])
           else if s = ''{"action": "stop"}'' then Inr (JObj [(''action'', JStr ''stop'')])
           else if s = ''{"action": "dance"}'' then Inr (JObj [(''action'', JStr ''dance'')])
           else if s = ''{}'' then Inr (JObj [])
           else if s = ''[]'' then Inr (JArr [])
           else if s = replicate 100000 (CHR ''['') then Inl RecursionError
           else Inl JSONDecodeError)
      | Binary b \<Rightarrow>
          (if b = [CHR 0x80, CHR ''a'', CHR ''b'', CHR ''c''] then Inl UnicodeDecodeError
           else Inl JSONDecodeError))\<close>

definition example_env :: "bool \<Rightarrow> env" where
  "example_env opens =
     \<lparr>loads = example_loads, repr_other = (\<lambda>v. ''...''), camera_opens = opens,
      camera_width = 640, camera_height = 480\<rparr>"

definition idle :: video_processor where
  "idle = \<lparr>camera = None, is_streaming = False, frame_width = None, frame_height = None\<rparr>"

definition streaming :: video_processor where
  "streaming = \<lparr>camera = Some (Capture True), is_streaming = True,
                 frame_width = Some 640, frame_height = Some 480\<rparr>"

definition fresh_connection :: connection where
  "fresh_connection = \<lparr>ws_open = True, sent = [], push_tasks = 0\<rparr>"

text \<open>
  A fresh collector, a tracker result whose only detection has two keypoint rows, and one
  whose detection has the three rows of a subject lying along the x axis.
\<close>

definition fresh_collector :: collector where
  "fresh_collector = \<lparr>video = None, feature_history = [], effects = []\<rparr>"

definition two_row_result :: track_result where
  "two_row_result = \<lparr>boxes_id = Some [7], keypoints = Some [[(0, 0), (1, 0)]], conf = [0.9]\<rparr>"

definition three_row_result :: track_result where
  "three_row_result =
     \<lparr>boxes_id = Some [7], keypoints = Some [[(0, 0), (1, 0), (2, 0)]], conf = [0.9]\<rparr>"

text \<open>
  A second frame with the subject moved by 3 along the x axis; the records that the two
  frames give at 0 s and 0.05 s; a subject heading west and then south-west; and a record
  and a feature dictionary with the headings 179 and -179.
\<close>

definition shifted_result :: track_result where
  "shifted_result =
     \<lparr>boxes_id = Some [7], keypoints = Some [[(3, 0), (4, 0), (5, 0)]], conf = [0.9]\<rparr>"

definition first_record :: feature_record where
  "first_record =
     \<lparr>head_x = 0, head_y = 0, heart_x = 1, heart_y = 0, body_orientation = 0, timestamp = 0,
      velocity_x = 0, velocity_y = 0, angular_velocity = 0\<rparr>"

definition second_features :: features where
  "second_features =
     \<lparr>head_x = 3, head_y = 0, heart_x = 4, heart_y = 0, body_orientation = 0,
      timestamp = 0.05\<rparr>"

definition second_record :: feature_record where
  "second_record = update second_features 60 0 0"

definition west_result :: track_result where
  "west_result =
     \<lparr>boxes_id = Some [7], keypoints = Some [[(2, 0), (1, 0), (0, 0)]], conf = [0.9]\<rparr>"

definition south_west_result :: track_result where
  "south_west_result =
     \<lparr>boxes_id = Some [7], keypoints = Some [[(2, 2), (1, 1), (0, 0)]], conf = [0.9]\<rparr>"

definition heading_179 :: feature_record where
  "heading_179 =
     \<lparr>head_x = 0, head_y = 0, heart_x = 1, heart_y = 0, body_orientation = 179, timestamp = 0,
      velocity_x = 0, velocity_y = 0, angular_velocity = 0\<rparr>"

definition heading_minus_179 :: features where
  "heading_minus_179 =
     \<lparr>head_x = 0, head_y = 0, heart_x = 1, heart_y = 0, body_orientation = - 179,
      timestamp = 0.05\<rparr>"

section \<open>Properties of the feature extractor\<close>

lemma arctan2_range: "- pi < arctan2 y x \<and> arctan2 y x \<le> pi"
proof -
  have lo: "- (pi / 2) < arctan (y / x)" by (rule arctan_lbound)
  have hi: "arctan (y / x) < pi / 2" by (rule arctan_ubound)
  have pos: "0 < pi" by (rule pi_gt_zero)
  consider (right) "0 < x" | (upper) "x < 0" "0 \<le> y" | (lower) "x < 0" "y < 0"
    | (up) "x = 0" "0 < y" | (down) "x = 0" "y < 0" | (origin) "x = 0" "y = 0"
    by linarith
  then show ?thesis
  proof cases
    case right
    then have "arctan2 y x = arctan (y / x)" by (simp add: arctan2_def)
    with lo hi pos show ?thesis by linarith
  next
    case upper
    then have "y / x \<le> 0" by (simp add: divide_le_0_iff)
    then have le: "arctan (y / x) \<le> 0" by simp
    from upper have "arctan2 y x = arctan (y / x) + pi" by (simp add: arctan2_def)
    with lo le pos show ?thesis by linarith
  next
    case lower
    then have "0 < y / x" by (simp add: zero_less_divide_iff)
    then have gt: "0 < arctan (y / x)" by simp
    from lower have "arctan2 y x = arctan (y / x) - pi" by (simp add: arctan2_def)
    with hi gt pos show ?thesis by linarith
  next
    case up
    then have "arctan2 y x = pi / 2" by (simp add: arctan2_def)
    with pos show ?thesis by linarith
  next
    case down
    then have "arctan2 y x = - (pi / 2)" by (simp add: arctan2_def)
    with pos show ?thesis by linarith
  next
    case origin
    then have "arctan2 y x = 0" by (simp add: arctan2_def)
    with pos show ?thesis by linarith
  qed
qed

lemma degrees_range: "- pi < r \<Longrightarrow> r \<le> pi \<Longrightarrow> - 180 < degrees r \<and> degrees r \<le> 180"
proof -
  assume a: "- pi < r" and b: "r \<le> pi"
  have pos: "0 < pi" by (rule pi_gt_zero)
  from a pos have "- 180 * pi < r * 180" by simp
  then have l: "- 180 < r * 180 / pi" using pos by (simp add: pos_less_divide_eq)
  from b pos have "r * 180 \<le> 180 * pi" by simp
  then have u: "r * 180 / pi \<le> 180" using pos by (simp add: pos_divide_le_eq)
  from l u show ?thesis by (simp add: degrees_def)
qed

text \<open>
  Over the reals: for three keypoints (and any further rows, which the slice drops) the
  extractor succeeds, \<open>body_orientation\<close> is the arctangent, in degrees, of the
  componentwise mean of the head-to-heart and heart-to-tail vectors, and it lies in the
  half-open interval from -180 (excluded) to 180 (included). The open lower bound is a
  fact of the real numbers only. In IEEE arithmetic \<open>arctan2\<close> of a tiny negative
  \<open>y\<close> and a negative \<open>x\<close> rounds to \<open>-pi\<close> and the degrees are then exactly
  -180: so it is in single precision for head (500, 100.00001), heart (300, 100), tail
  (100, 100). Whether the computed orientation stays above -180 is therefore a question
  of rounding, which this embedding does not state; claim C8 is not settled by this lemma.
\<close>

lemma body_orientation_range_over_reals:
  "\<exists>f. calculate_features (head # heart # tail # rest) now = Inr f
     \<and> body_orientation f =
         degrees (arctan2 (((snd heart - snd head) + (snd tail - snd heart)) / 2)
                          (((fst heart - fst head) + (fst tail - fst heart)) / 2))
     \<and> - 180 < body_orientation f \<and> body_orientation f \<le> 180"
  using degrees_range [OF conjunct1 [OF arctan2_range] conjunct2 [OF arctan2_range]]
  by (simp add: Let_def)

section \<open>Properties of the derivatives\<close>

lemma consecutive_snoc:
  "consecutive P previous (rs @ [r]) =
     (consecutive P previous rs \<and> P (if rs = [] then previous else Some (last rs)) r)"
  by (induction rs arbitrary: previous) auto

lemma history_inv_touch:
  "history_inv P h pf \<Longrightarrow> history_inv P (touch 0 h) pf"
  unfolding history_inv_def
  by (elim disjE conjE exE) (simp_all add: touch_def fixed_track_id_def)

lemma history_inv_append:
  "history_inv P h pf \<Longrightarrow> P (pf fixed_track_id) r \<Longrightarrow>
     history_inv P (append_record fixed_track_id r h) (pf(fixed_track_id \<mapsto> r))"
  unfolding history_inv_def
  by (elim disjE conjE exE) (simp_all add: touch_def append_record_def consecutive_snoc)

lemma history_inv_process_result:
  assumes step: "\<forall>pf f r. add_velocities pf f = Inr r \<longrightarrow> P (pf fixed_track_id) r"
    and inv: "history_inv P h pf"
    and res: "process_result h pf res now = Inr (h', pf')"
  shows "history_inv P h' pf'"
  using res inv
  by (auto simp: process_result_def history_inv_append step
      split: option.splits if_splits sum.splits)

lemma history_inv_loop:
  assumes step: "\<forall>pf f r. add_velocities pf f = Inr r \<longrightarrow> P (pf fixed_track_id) r"
  shows "history_inv P (feature_history c) pf \<Longrightarrow>
           \<exists>pf'. history_inv P (feature_history (snd (loop total_frames c pf evs))) pf'"
proof (induction total_frames c pf evs rule: loop.induct)
  case (1 total_frames c prev_features)
  then show ?case by auto
next
  case (2 total_frames c prev_features e evs)
  then show ?case by auto
next
  case (3 total_frames c prev_features res now q evs)
  show ?case
  proof (cases "process_result (feature_history c) prev_features res now")
    case (Inl e)
    with 3 show ?thesis by auto
  next
    case (Inr hp)
    obtain h pf where hp: "hp = (h, pf)" by (cases hp)
    from Inr hp "3.prems" have i1: "history_inv P h pf"
      using history_inv_process_result [where P = P, OF step] by blast
    then have i2: "history_inv P (touch 0 h) pf" by (rule history_inv_touch)
    show ?thesis
    proof (cases "total_frames = 0")
      case True
      with Inr hp i1 show ?thesis by (auto simp: Let_def)
    next
      case nz: False
      show ?thesis
      proof (cases q)
        case True
        with Inr hp i2 nz show ?thesis by (auto simp: Let_def)
      next
        case False
        from "3.IH" [of "(h, pf)" h pf "c\<lparr>feature_history := h\<rparr>"
                        "c\<lparr>feature_history := touch 0 h\<rparr>"] Inr hp nz False i2
        show ?thesis by (simp add: Let_def)
      qed
    qed
  qed
qed

lemma history_inv_collect_data:
  assumes step: "\<forall>pf f r. add_velocities pf f = Inr r \<longrightarrow> P (pf fixed_track_id) r"
    and empty: "feature_history c = []"
    and mem: "(k, rs) \<in> set (feature_history (snd (collect_data opens total_frames evs save_raises c)))"
  shows "k = fixed_track_id \<and> consecutive P None rs"
proof (cases opens)
  case False
  with empty mem show ?thesis by (simp add: collect_data_def initialize_video_def)
next
  case True
  let ?c1 = "c\<lparr>video := Some (Capture True)\<rparr>"
  have "history_inv P (feature_history ?c1) Map.empty"
    using empty by (simp add: history_inv_def)
  from history_inv_loop [where P = P, OF step this, of total_frames evs]
  obtain pf' where i: "history_inv P (feature_history (snd (loop total_frames ?c1 Map.empty evs))) pf'"
    by blast
  have "feature_history (snd (collect_data opens total_frames evs save_raises c)) =
          feature_history (snd (loop total_frames ?c1 Map.empty evs))"
    using True
    by (simp add: collect_data_def initialize_video_def Let_def save_data_def cleanup_def
        split: prod.splits option.splits)
  with mem i show ?thesis by (auto simp: history_inv_def)
qed

lemma add_velocities_result:
  assumes "add_velocities pf f = Inr r"
  shows "case pf fixed_track_id of
           None \<Rightarrow> r = update f 0 0 0
         | Some p \<Rightarrow>
             (if timestamp f - timestamp p \<le> max_time_gap then
                timestamp f - timestamp p \<noteq> 0
                \<and> r = update f ((heart_x f - heart_x p) / (timestamp f - timestamp p))
                              ((heart_y f - heart_y p) / (timestamp f - timestamp p))
                              ((body_orientation f - body_orientation p)
                                 / (timestamp f - timestamp p))
              else r = update f 0 0 0)"
proof (cases "pf fixed_track_id")
  case None
  with assms show ?thesis by (simp add: add_velocities_def)
next
  case (Some p)
  show ?thesis
  proof (cases "timestamp f - timestamp p \<le> max_time_gap")
    case False
    with assms Some show ?thesis by (simp add: add_velocities_def Let_def)
  next
    case True
    with assms Some have nz: "timestamp f - timestamp p \<noteq> 0"
      by (auto simp: add_velocities_def Let_def split: if_splits)
    with assms Some True show ?thesis by (simp add: add_velocities_def Let_def)
  qed
qed

lemma example_run:
  "feature_history (snd (collect_data True 2
      [Frame three_row_result 0 False, Frame shifted_result 0.05 False] None fresh_collector)) =
   [(0, [first_record, second_record])]"
  by (simp add: collect_data_def initialize_video_def process_result_def argmax_def
        add_velocities_def update_def touch_def append_record_def fixed_track_id_def
        max_time_gap_def degrees_def arctan2_def Let_def
        save_data_def cleanup_def three_row_result_def shifted_result_def fresh_collector_def
        first_record_def second_record_def second_features_def)

lemma turning_run:
  "feature_history (snd (collect_data True 2
      [Frame west_result 0 False, Frame south_west_result 0.05 False] None fresh_collector)) =
   [(0, [\<lparr>head_x = 2, head_y = 0, heart_x = 1, heart_y = 0, body_orientation = 180, timestamp = 0,
      velocity_x = 0, velocity_y = 0, angular_velocity = 0\<rparr>,
      \<lparr>head_x = 2, head_y = 2, heart_x = 1, heart_y = 1, body_orientation = - 135,
        timestamp = 0.05, velocity_x = 0, velocity_y = 20, angular_velocity = - 6300\<rparr>])]"
  by (simp add: collect_data_def initialize_video_def process_result_def argmax_def
        add_velocities_def update_def touch_def append_record_def fixed_track_id_def
        max_time_gap_def degrees_def arctan2_def arctan_one Let_def
        save_data_def cleanup_def west_result_def south_west_result_def fresh_collector_def)

lemma add_velocities_as_specified:
  assumes "add_velocities pf f = Inr r"
  shows "velocities_as_specified (pf fixed_track_id) r"
  using add_velocities_result [OF assms]
  by (cases "pf fixed_track_id")
     (simp_all add: velocities_as_specified_def update_def max_time_gap_def split: if_splits)

lemma add_velocities_unwrapped:
  assumes "add_velocities pf f = Inr r"
  shows "angular_velocity_unwrapped (pf fixed_track_id) r"
  using add_velocities_result [OF assms]
  by (cases "pf fixed_track_id")
     (simp_all add: angular_velocity_unwrapped_def update_def max_time_gap_def split: if_splits)

text \<open>
  Claim C5: a record that \<open>add_velocities\<close> produces keeps the position and the time
  of the new features and has the velocities of the specification: with a previous record
  at most 0.1 s older, the finite differences of \<open>heart_x\<close> and \<open>heart_y\<close> over the
  time difference; with an older one, or none, all three derivatives zero. A record is
  produced whenever the two timestamps differ (equal timestamps raise
  \<open>ZeroDivisionError\<close> and give no record). In a run of \<open>collect_data\<close> that starts
  with an empty history, every record of the history has these velocities against the
  record before it, and the history has no track but the fixed one.
\<close>

theorem velocities_finite_difference_or_zero:
  "(add_velocities pf f = Inr r \<longrightarrow>
      velocities_as_specified (pf fixed_track_id) r
      \<and> heart_x r = heart_x f \<and> heart_y r = heart_y f \<and> timestamp r = timestamp f)
   \<and> ((\<forall>prev. pf fixed_track_id = Some prev \<longrightarrow> timestamp f \<noteq> timestamp prev) \<longrightarrow>
        (\<exists>r'. add_velocities pf f = Inr r'))
   \<and> (pf fixed_track_id = Some prev \<and> timestamp f = timestamp prev \<longrightarrow>
        add_velocities pf f = Inl ZeroDivisionError)
   \<and> (feature_history c = []
        \<and> (k, rs) \<in> set (feature_history (snd (collect_data opens total_frames evs save_raises c))) \<longrightarrow>
        k = fixed_track_id \<and> consecutive velocities_as_specified None rs)"
proof (intro conjI impI)
  assume a: "add_velocities pf f = Inr r"
  then show "velocities_as_specified (pf fixed_track_id) r"
    by (rule add_velocities_as_specified)
  from add_velocities_result [OF a]
  show "heart_x r = heart_x f" "heart_y r = heart_y f" "timestamp r = timestamp f"
    by (cases "pf fixed_track_id"; simp add: update_def split: if_splits)+
next
  assume "\<forall>prev. pf fixed_track_id = Some prev \<longrightarrow> timestamp f \<noteq> timestamp prev"
  then show "\<exists>r'. add_velocities pf f = Inr r'"
    by (cases "pf fixed_track_id") (simp_all add: add_velocities_def Let_def)
next
  assume "pf fixed_track_id = Some prev \<and> timestamp f = timestamp prev"
  then show "add_velocities pf f = Inl ZeroDivisionError"
    by (simp add: add_velocities_def max_time_gap_def)
next
  assume h: "feature_history c = []
      \<and> (k, rs) \<in> set (feature_history (snd (collect_data opens total_frames evs save_raises c)))"
  have step: "\<forall>pf f r. add_velocities pf f = Inr r \<longrightarrow>
                velocities_as_specified (pf fixed_track_id) r"
    using add_velocities_as_specified by blast
  from history_inv_collect_data [where P = velocities_as_specified, OF step] h
  show "k = fixed_track_id" "consecutive velocities_as_specified None rs" by blast+
qed

theorem velocities_witness:
  "add_velocities (Map.empty(fixed_track_id \<mapsto> first_record)) second_features = Inr second_record
   \<and> timestamp second_features - timestamp first_record \<le> 0.1
   \<and> velocity_x second_record = (4 - 1) / 0.05 \<and> velocity_y second_record = 0
   \<and> add_velocities (Map.empty(fixed_track_id \<mapsto> first_record))
        (second_features\<lparr>timestamp := 0\<rparr>) = Inl ZeroDivisionError
   \<and> feature_history fresh_collector = []
   \<and> (0, [first_record, second_record]) \<in> set (feature_history (snd (collect_data True 2
        [Frame three_row_result 0 False, Frame shifted_result 0.05 False] None fresh_collector)))
   \<and> consecutive velocities_as_specified None [first_record, second_record]"
proof -
  let ?pf = "Map.empty(fixed_track_id \<mapsto> first_record)"
  have a: "add_velocities ?pf second_features = Inr second_record"
    by (simp add: add_velocities_def max_time_gap_def first_record_def second_record_def
          second_features_def update_def)
  have e: "feature_history fresh_collector = []" by (simp add: fresh_collector_def)
  have m: "(0, [first_record, second_record]) \<in> set (feature_history (snd (collect_data True 2
        [Frame three_row_result 0 False, Frame shifted_result 0.05 False] None fresh_collector)))"
    using example_run by simp
  from velocities_finite_difference_or_zero
         [of ?pf second_features second_record first_record fresh_collector 0
             "[first_record, second_record]" True 2
             "[Frame three_row_result 0 False, Frame shifted_result 0.05 False]" None] a e m
  have c: "consecutive velocities_as_specified None [first_record, second_record]"
    and v: "velocities_as_specified (?pf fixed_track_id) second_record" by blast+
  from velocities_finite_difference_or_zero
         [of ?pf "second_features\<lparr>timestamp := 0\<rparr>" second_record first_record]
  have z: "add_velocities ?pf (second_features\<lparr>timestamp := 0\<rparr>) = Inl ZeroDivisionError"
    by (simp add: first_record_def)
  from a e m c z show ?thesis
    by (simp add: first_record_def second_record_def second_features_def update_def)
qed

text \<open>
  Claim C1 as stated fails: from heading 179 to heading -179 in 0.05 s the code gives the
  angular velocity -7160 (the plain difference -358 over 0.05), where the shortest signed
  angle 2 would give 40. The same happens on keypoints: a subject turning from west
  (180) to south-west (-135) in 0.05 s is given -6300, where the shortest signed angle 45
  would give 900.
\<close>

theorem angular_velocity_wrap_counterexample:
  "heading_179 = update (heading_minus_179\<lparr>body_orientation := 179, timestamp := 0\<rparr>) 0 0 0
   \<and> timestamp heading_minus_179 - timestamp heading_179 \<le> max_time_gap
   \<and> add_velocities (Map.empty(fixed_track_id \<mapsto> heading_179)) heading_minus_179 =
       Inr (update heading_minus_179 0 0 (- 7160))
   \<and> shortest_signed_angle (body_orientation heading_minus_179) (body_orientation heading_179)
       / (timestamp heading_minus_179 - timestamp heading_179) = 40
   \<and> feature_history (snd (collect_data True 2
        [Frame west_result 0 False, Frame south_west_result 0.05 False] None fresh_collector)) =
      [(0, [\<lparr>head_x = 2, head_y = 0, heart_x = 1, heart_y = 0, body_orientation = 180,
              timestamp = 0, velocity_x = 0, velocity_y = 0, angular_velocity = 0\<rparr>,
            \<lparr>head_x = 2, head_y = 2, heart_x = 1, heart_y = 1, body_orientation = - 135,
              timestamp = 0.05, velocity_x = 0, velocity_y = 20, angular_velocity = - 6300\<rparr>])]
   \<and> shortest_signed_angle (- 135) 180 / 0.05 = 900"
  using turning_run
  by (simp add: add_velocities_def max_time_gap_def heading_179_def
        heading_minus_179_def update_def shortest_signed_angle_def)

text \<open>
  Claim C1, as amended: against a previous record at most \<open>max_time_gap\<close> older, the
  angular velocity of the new record is the plain difference of the two orientations
  over the time difference, with no wrap-around handling; so a heading change from 179
  to -179 gives -358 over the time difference. In a run of \<open>collect_data\<close> that starts
  with an empty history this holds for every two neighbouring records of the history.
\<close>

theorem angular_velocity_plain_difference:
  "(add_velocities pf f = Inr r \<and> pf fixed_track_id = Some prev
      \<and> timestamp f - timestamp prev \<le> max_time_gap \<longrightarrow>
      angular_velocity r =
        (body_orientation f - body_orientation prev) / (timestamp f - timestamp prev))
   \<and> (pf fixed_track_id = Some prev \<and> body_orientation prev = 179 \<and> body_orientation f = - 179
        \<and> timestamp f - timestamp prev \<le> max_time_gap \<and> timestamp f \<noteq> timestamp prev \<longrightarrow>
        (\<exists>r'. add_velocities pf f = Inr r'
           \<and> angular_velocity r' = - 358 / (timestamp f - timestamp prev)))
   \<and> (feature_history c = []
        \<and> (k, rs) \<in> set (feature_history (snd (collect_data opens total_frames evs save_raises c))) \<longrightarrow>
        consecutive angular_velocity_unwrapped None rs)"
proof (intro conjI impI)
  assume a: "add_velocities pf f = Inr r \<and> pf fixed_track_id = Some prev
      \<and> timestamp f - timestamp prev \<le> max_time_gap"
  with add_velocities_result [of pf f r]
  show "angular_velocity r =
        (body_orientation f - body_orientation prev) / (timestamp f - timestamp prev)"
    by (simp add: update_def)
next
  assume "pf fixed_track_id = Some prev \<and> body_orientation prev = 179 \<and> body_orientation f = - 179
        \<and> timestamp f - timestamp prev \<le> max_time_gap \<and> timestamp f \<noteq> timestamp prev"
  then show "\<exists>r'. add_velocities pf f = Inr r'
           \<and> angular_velocity r' = - 358 / (timestamp f - timestamp prev)"
    by (simp add: add_velocities_def update_def Let_def)
next
  assume h: "feature_history c = []
      \<and> (k, rs) \<in> set (feature_history (snd (collect_data opens total_frames evs save_raises c)))"
  have step: "\<forall>pf f r. add_velocities pf f = Inr r \<longrightarrow>
                angular_velocity_unwrapped (pf fixed_track_id) r"
    using add_velocities_unwrapped by blast
  from history_inv_collect_data [where P = angular_velocity_unwrapped, OF step] h
  show "consecutive angular_velocity_unwrapped None rs" by blast
qed

theorem angular_velocity_plain_witness:
  "(Map.empty(fixed_track_id \<mapsto> heading_179)) fixed_track_id = Some heading_179
   \<and> body_orientation heading_179 = 179 \<and> body_orientation heading_minus_179 = - 179
   \<and> timestamp heading_minus_179 - timestamp heading_179 \<le> max_time_gap
   \<and> timestamp heading_minus_179 \<noteq> timestamp heading_179
   \<and> add_velocities (Map.empty(fixed_track_id \<mapsto> heading_179)) heading_minus_179 =
       Inr (update heading_minus_179 0 0 (- 7160))
   \<and> angular_velocity (update heading_minus_179 0 0 (- 7160)) = (- 179 - 179) / 0.05
   \<and> feature_history fresh_collector = []
   \<and> (0, [first_record, second_record]) \<in> set (feature_history (snd (collect_data True 2
        [Frame three_row_result 0 False, Frame shifted_result 0.05 False] None fresh_collector)))
   \<and> consecutive angular_velocity_unwrapped None [first_record, second_record]"
proof -
  let ?pf = "Map.empty(fixed_track_id \<mapsto> heading_179)"
  let ?r = "update heading_minus_179 0 0 (- 7160)"
  have a: "add_velocities ?pf heading_minus_179 = Inr ?r"
    by (simp add: add_velocities_def max_time_gap_def heading_179_def heading_minus_179_def
          update_def)
  have g: "timestamp heading_minus_179 - timestamp heading_179 \<le> max_time_gap"
    by (simp add: max_time_gap_def heading_179_def heading_minus_179_def)
  have e: "feature_history fresh_collector = []" by (simp add: fresh_collector_def)
  have m: "(0, [first_record, second_record]) \<in> set (feature_history (snd (collect_data True 2
        [Frame three_row_result 0 False, Frame shifted_result 0.05 False] None fresh_collector)))"
    using example_run by simp
  from angular_velocity_plain_difference
         [of ?pf heading_minus_179 ?r heading_179 fresh_collector 0
             "[first_record, second_record]" True 2
             "[Frame three_row_result 0 False, Frame shifted_result 0.05 False]" None] a g e m
  have c: "consecutive angular_velocity_unwrapped None [first_record, second_record]"
    and v: "angular_velocity ?r =
        (body_orientation heading_minus_179 - body_orientation heading_179)
          / (timestamp heading_minus_179 - timestamp heading_179)"
    by simp_all
  from a g e m c v show ?thesis
    by (simp add: heading_179_def heading_minus_179_def)
qed

section \<open>Properties of the collection loop\<close>

lemma loop_keeps_video_effects:
  "video (snd (loop total_frames c prev_features evs)) = video c
   \<and> effects (snd (loop total_frames c prev_features evs)) = effects c"
proof (induction total_frames c prev_features evs rule: loop.induct)
  case (1 total_frames c prev_features)
  show ?case by simp
next
  case (2 total_frames c prev_features e evs)
  show ?case by simp
next
  case (3 total_frames c prev_features res now q evs)
  show ?case
  proof (cases "process_result (feature_history c) prev_features res now")
    case (Inl e)
    then show ?thesis by simp
  next
    case (Inr hp)
    obtain h pf where hp: "hp = (h, pf)" by (cases hp)
    show ?thesis
    proof (cases "total_frames = 0 \<or> q")
      case True
      with Inr hp show ?thesis by (auto simp: Let_def)
    next
      case False
      with Inr hp 3 [of "(h, pf)" h pf "c\<lparr>feature_history := h\<rparr>"
                        "c\<lparr>feature_history := touch 0 h\<rparr>"]
      show ?thesis by (simp add: Let_def)
    qed
  qed
qed

text \<open>
  Claim C7 as stated fails: when writing the snapshot raises (here an \<open>OSError\<close>),
  nothing is saved, \<open>cleanup\<close> is not reached, the capture stays open although a record
  was collected, and the error leaves \<open>collect_data\<close>.
\<close>

theorem save_failure_counterexample:
  "collect_data True 1 [Frame three_row_result 0 False] (Some OSError) fresh_collector =
     (Some OSError,
      \<lparr>video = Some (Capture True), feature_history = [(0, [first_record])], effects = []\<rparr>)"
  by (simp add: collect_data_def initialize_video_def process_result_def argmax_def
        add_velocities_def update_def touch_def append_record_def fixed_track_id_def
        degrees_def arctan2_def Let_def save_data_def three_row_result_def
        fresh_collector_def first_record_def)

text \<open>
  Claim C7, as amended: once the video has been opened, every way out of the loop (the
  source ends, \<open>q\<close> is pressed, \<open>KeyboardInterrupt\<close>, or any other exception of an
  iteration) is followed by \<open>save_data\<close>, and when \<open>save_data\<close> completes, by exactly
  two effects in this order: the history is saved as it then is, and the capture is
  released. \<open>KeyboardInterrupt\<close> of the loop never leaves \<open>collect_data\<close>.
\<close>

theorem save_then_release_when_save_completes:
  "effects (snd (collect_data True total_frames evs None c)) =
     effects c @ [Saved (feature_history (snd (collect_data True total_frames evs None c))),
                  Released]
   \<and> video (snd (collect_data True total_frames evs None c)) = Some (Capture False)
   \<and> fst (collect_data True total_frames evs None c) \<noteq> Some KeyboardInterrupt"
proof -
  let ?c1 = "c\<lparr>video := Some (Capture True)\<rparr>"
  obtain raised c2 where l: "loop total_frames ?c1 Map.empty evs = (raised, c2)"
    by (cases "loop total_frames ?c1 Map.empty evs")
  from loop_keeps_video_effects [of total_frames ?c1 Map.empty evs] l
  have v: "video c2 = Some (Capture True)" and e: "effects c2 = effects c" by simp_all
  from l v e show ?thesis
    by (simp add: collect_data_def initialize_video_def Let_def save_data_def cleanup_def)
qed

lemma calculate_features_short:
  "length kps < 3 \<Longrightarrow> calculate_features kps now = Inl ValueError"
  by (cases "(kps, now)" rule: calculate_features.cases) simp_all

text \<open>
  Claim C4 as stated fails: a frame whose best detection has two keypoint rows ends the
  run with \<open>ValueError\<close>, and the well-formed frame after it is never processed.
\<close>

theorem short_keypoints_abort_counterexample:
  "length (the (keypoints two_row_result) ! 0) < 3
   \<and> fst (collect_data True 2
          [Frame two_row_result 0 False, Frame three_row_result 0.03 False] None fresh_collector) =
       Some ValueError
   \<and> feature_history (snd (collect_data True 2
          [Frame two_row_result 0 False, Frame three_row_result 0.03 False] None fresh_collector)) = []"
  by (simp add: collect_data_def initialize_video_def process_result_def argmax_def
        save_data_def cleanup_def two_row_result_def three_row_result_def fresh_collector_def)

text \<open>
  Claim C4, as amended: with fewer than three keypoint rows the extractor fails with
  \<open>ValueError\<close>; the loop does not catch it, so the iteration that selected those rows
  ends the loop whatever frames follow, and \<open>collect_data\<close> lets the error out after
  \<open>save_data\<close> and \<open>cleanup\<close> have run (the snapshot being written without error).
\<close>

theorem short_keypoints_abort:
  "boxes_id res = Some track_ids \<Longrightarrow> track_ids \<noteq> [] \<Longrightarrow> keypoints res = Some kps \<Longrightarrow>
   argmax (conf res) = Inr i \<Longrightarrow> i < length kps \<Longrightarrow> length (kps ! i) < 3 \<Longrightarrow>
     calculate_features (kps ! i) now = Inl ValueError
   \<and> loop total_frames c prev_features (Frame res now q # evs) = (Some ValueError, c)
   \<and> collect_data True total_frames (Frame res now q # evs) None c =
       (Some ValueError,
        cleanup (snd (save_data None (c\<lparr>video := Some (Capture True)\<rparr>))))"
  by (simp add: calculate_features_short process_result_def collect_data_def
        initialize_video_def save_data_def)

theorem short_keypoints_abort_witness:
  "boxes_id two_row_result = Some [7] \<and> keypoints two_row_result = Some [[(0, 0), (1, 0)]]
   \<and> argmax (conf two_row_result) = Inr 0
   \<and> length ([[(0, 0), (1, 0)]] ! 0 :: (real \<times> real) list) < 3
   \<and> collect_data True 2
        [Frame two_row_result 0 False, Frame three_row_result 0.03 False] None fresh_collector =
      (Some ValueError,
       \<lparr>video = Some (Capture False), feature_history = [], effects = [Saved [], Released]\<rparr>)"
  using short_keypoints_abort
          [of two_row_result "[7]" "[[(0, 0), (1, 0)]]" 0 0 2 fresh_collector Map.empty False
              "[Frame three_row_result 0.03 False]"]
  by (simp add: argmax_def save_data_def cleanup_def two_row_result_def fresh_collector_def)

section \<open>Properties of the streaming session\<close>

lemma send_open: "ws_open w \<Longrightarrow> send w m = (None, w\<lparr>sent := sent w @ [m]\<rparr>)"
  by (simp add: send_def)

lemma release_idle: "camera p = None \<Longrightarrow> release_camera p = p"
  by (simp add: release_camera_def)

text \<open>
  What the handler does right: on an open connection, a frame on which \<open>json.loads\<close>
  raises \<open>JSONDecodeError\<close> is answered with the error \<open>Invalid JSON format\<close>; a frame
  that parses to an object whose \<open>action\<close> is neither \<open>start\<close> nor \<open>stop\<close> is
  answered with the error \<open>Unknown command: \<close> followed by the text of the action (the
  action itself when it is a string). In both cases the session is unchanged, nothing
  else is sent, no exception leaves \<open>handle_message\<close>, and the handler goes on to the
  next frame.
\<close>

lemma decode_error_and_unknown_action_reply:
  "ws_open w \<Longrightarrow>
     (loads E msg = Inl JSONDecodeError \<longrightarrow>
        handle_message E p w msg =
          (None, p, w\<lparr>sent := sent w @ [Msg ''error'' ''Invalid JSON format'']\<rparr>))
   \<and> (loads E msg = Inr (JObj kvs) \<and> map_of kvs ''action'' = Some a
        \<and> a \<noteq> JStr ''start'' \<and> a \<noteq> JStr ''stop'' \<longrightarrow>
        handle_message E p w msg =
          (None, p, w\<lparr>sent := sent w @ [Msg ''error'' (''Unknown command: '' @ py_str E a)]\<rparr>)
        \<and> (\<forall>s. a = JStr s \<longrightarrow> py_str E a = s))
   \<and> (loads E msg = Inl JSONDecodeError
        \<or> (loads E msg = Inr (JObj kvs) \<and> map_of kvs ''action'' = Some a
            \<and> a \<noteq> JStr ''start'' \<and> a \<noteq> JStr ''stop'') \<longrightarrow>
        dispatch E p w (msg # msgs) = dispatch E p (snd (snd (handle_message E p w msg))) msgs)"
  by (auto simp: handle_message_def send_open)

text \<open>
  Every other exception of \<open>json.loads\<close> leaves \<open>handle_message\<close>: nothing is sent, and
  \<open>handle_connection\<close>, which catches \<open>ConnectionClosed\<close> only, handles no further frame.
\<close>

lemma other_loads_errors_leave:
  "loads E msg = Inl e \<Longrightarrow> e \<noteq> JSONDecodeError \<Longrightarrow>
     handle_message E p w msg = (Some e, p, w)
   \<and> dispatch E p w (msg # msgs) = (Some e, p, w)"
  by (simp add: handle_message_def)

lemma deep_nesting_is_no_example_text:
  "length s < 100000 \<Longrightarrow>
     replicate 100000 (CHR ''['') \<noteq> s \<and> s \<noteq> replicate 100000 (CHR ''['')"
  by (metis length_replicate less_irrefl)

text \<open>
  Claim C6, at the inputs where the code departs from it: the binary frame of the bytes
  0x80, a, b, c and the text of 100000 opening brackets are not parseable as JSON, yet
  \<open>json.loads\<close> raises \<open>UnicodeDecodeError\<close> and \<open>RecursionError\<close> on them, which
  \<open>handle_message\<close> does not catch: no reply is sent and the error ends the connection
  handler, the frames after it unhandled. The malformed text \<open>not json\<close> and the unknown
  action \<open>dance\<close> are answered as the claim says.
\<close>

theorem undecodable_frame_raises:
  \<open>loads (example_env True) (Binary [CHR 0x80, CHR ''a'', CHR ''b'', CHR ''c'']) =
     Inl UnicodeDecodeError
   \<and> handle_message (example_env True) streaming fresh_connection
        (Binary [CHR 0x80, CHR ''a'', CHR ''b'', CHR ''c'']) =
       (Some UnicodeDecodeError, streaming, fresh_connection)
   \<and> handle_connection (example_env True) idle fresh_connection
        [Binary [CHR 0x80, CHR ''a'', CHR ''b'', CHR ''c''], Text ''{"action": "start"}''] =
       (Some UnicodeDecodeError, idle,
        fresh_connection\<lparr>sent := [Msg ''info'' ''Connected to Video Processor'']\<rparr>)
   \<and> handle_message (example_env True) streaming fresh_connection
        (Text (replicate 100000 (CHR ''[''))) =
       (Some RecursionError, streaming, fresh_connection)
   \<and> handle_message (example_env True) streaming fresh_connection (Text ''not json'') =
       (None, streaming, fresh_connection\<lparr>sent := [Msg ''error'' ''Invalid JSON format'']\<rparr>)
   \<and> handle_message (example_env True) streaming fresh_connection
        (Text ''{"action": "dance"}'') =
       (None, streaming, fresh_connection\<lparr>sent := [Msg ''error'' ''Unknown command: dance'']\<rparr>)\<close>
  by (simp add: handle_message_def handle_connection_def send_def release_camera_def
        example_env_def example_loads_def fresh_connection_def idle_def
        deep_nesting_is_no_example_text)

text \<open>
  Claim C9: a \<open>stop\<close> received while idle (not streaming, no camera held) on an open
  connection leaves the session as it is, \<open>release_camera\<close> does nothing, and the
  client is sent the response \<open>Camera streaming stopped\<close>.
\<close>

theorem stop_when_idle:
  "camera p = None \<Longrightarrow> \<not> is_streaming p \<Longrightarrow> ws_open w \<Longrightarrow>
   loads E msg = Inr (JObj kvs) \<Longrightarrow> map_of kvs ''action'' = Some (JStr ''stop'') \<Longrightarrow>
     release_camera p = p
   \<and> handle_message E p w msg =
       (None, p, w\<lparr>sent := sent w @ [Msg ''response'' ''Camera streaming stopped'']\<rparr>)"
  by (simp add: handle_message_def send_open release_camera_def)

theorem stop_when_idle_witness:
  \<open>camera idle = None \<and> \<not> is_streaming idle \<and> ws_open fresh_connection
   \<and> handle_message (example_env True) idle fresh_connection (Text ''{"action": "stop"}'') =
       (None, idle, fresh_connection\<lparr>sent := [Msg ''response'' ''Camera streaming stopped'']\<rparr>)\<close>
  using stop_when_idle [of idle fresh_connection "example_env True" \<open>Text ''{"action": "stop"}''\<close>
          "[(''action'', JStr ''stop'')]"]
  by (simp add: example_env_def example_loads_def fresh_connection_def idle_def)

text \<open>
  Claim C2 as stated fails: a \<open>start\<close> received while streaming sends nothing, so
  there is no acknowledgement.
\<close>

theorem start_when_streaming_counterexample:
  \<open>is_streaming streaming \<and> ws_open fresh_connection
   \<and> loads (example_env True) (Text ''{"action": "start"}'') = Inr (JObj [(''action'', JStr ''start'')])
   \<and> sent (snd (snd (handle_message (example_env True) streaming fresh_connection
                        (Text ''{"action": "start"}'')))) = []\<close>
  by (simp add: handle_message_def example_env_def example_loads_def fresh_connection_def
        streaming_def)

text \<open>
  Claim C2, as amended: a \<open>start\<close> received while streaming changes neither the
  session nor the connection (no second camera, no second push loop) and sends no
  message: the acknowledgement is inside the \<open>if not self.is_streaming\<close> branch.
\<close>

theorem start_when_streaming_silent:
  "is_streaming p \<Longrightarrow> loads E msg = Inr (JObj kvs) \<Longrightarrow>
   map_of kvs ''action'' = Some (JStr ''start'') \<Longrightarrow>
     handle_message E p w msg = (None, p, w)"
  by (simp add: handle_message_def)

theorem start_when_streaming_silent_witness:
  \<open>is_streaming streaming
   \<and> handle_message (example_env True) streaming fresh_connection (Text ''{"action": "start"}'') =
       (None, streaming, fresh_connection)\<close>
  using start_when_streaming_silent [of streaming "example_env True" \<open>Text ''{"action": "start"}''\<close>
          "[(''action'', JStr ''start'')]" fresh_connection]
  by (simp add: example_env_def example_loads_def streaming_def)

text \<open>
  Claim C3 as stated fails: when the camera cannot be opened, \<open>handle_message\<close> is left
  by \<open>RuntimeError\<close> and nothing has been sent to the client.
\<close>

theorem source_unavailable_counterexample:
  \<open>\<not> is_streaming idle \<and> camera idle = None \<and> ws_open fresh_connection
   \<and> \<not> camera_opens (example_env False)
   \<and> handle_message (example_env False) idle fresh_connection (Text ''{"action": "start"}'') =
       (Some RuntimeError, idle\<lparr>camera := Some (Capture False)\<rparr>, fresh_connection)
   \<and> sent fresh_connection = []\<close>
  by (simp add: handle_message_def initialize_camera_def example_env_def example_loads_def
        fresh_connection_def idle_def)

text \<open>
  Claim C3, as amended: a \<open>start\<close> received while idle with a camera that cannot be
  opened raises \<open>RuntimeError\<close> out of \<open>handle_message\<close> with no message sent and the
  unopened capture object left in the session; \<open>handle_connection\<close> does not catch it:
  its \<open>finally\<close> block brings the session back to idle, the client has received the
  greeting only, the messages that follow are not handled, and the error leaves the
  handler.
\<close>

theorem source_unavailable_propagates:
  "\<not> is_streaming p \<Longrightarrow> camera p = None \<Longrightarrow> \<not> camera_opens E \<Longrightarrow>
   loads E msg = Inr (JObj kvs) \<Longrightarrow> map_of kvs ''action'' = Some (JStr ''start'') \<Longrightarrow>
     handle_message E p w msg = (Some RuntimeError, p\<lparr>camera := Some (Capture False)\<rparr>, w)
   \<and> (ws_open w \<longrightarrow>
        handle_connection E p w (msg # msgs) =
          (Some RuntimeError, p,
           w\<lparr>sent := sent w @ [Msg ''info'' ''Connected to Video Processor'']\<rparr>))"
  by (simp add: handle_message_def initialize_camera_def handle_connection_def send_open
        release_camera_def)

theorem source_unavailable_propagates_witness:
  \<open>\<not> is_streaming idle \<and> camera idle = None \<and> \<not> camera_opens (example_env False)
   \<and> ws_open fresh_connection
   \<and> handle_connection (example_env False) idle fresh_connection
        [Text ''{"action": "start"}'', Text ''{"action": "stop"}''] =
       (Some RuntimeError, idle,
        fresh_connection\<lparr>sent := [Msg ''info'' ''Connected to Video Processor'']\<rparr>)\<close>
  using source_unavailable_propagates [of idle "example_env False" \<open>Text ''{"action": "start"}''\<close>
          "[(''action'', JStr ''start'')]" fresh_connection \<open>[Text ''{"action": "stop"}'']\<close>]
  by (simp add: example_env_def example_loads_def fresh_connection_def idle_def)

text \<open>
  Claim C10, at the input where the code departs from it: the message \<open>[]\<close> is valid
  JSON without an \<open>action\<close> field, yet \<open>data.get\<close> raises \<open>AttributeError\<close>, no reply
  is sent and the error ends the connection handler; the object \<open>{}\<close> is answered with
  \<open>Unknown command: None\<close> as the claim says.
\<close>

theorem non_object_json_raises:
  \<open>loads (example_env True) (Text ''[]'') = Inr (JArr [])
   \<and> handle_message (example_env True) idle fresh_connection (Text ''[]'') =
       (Some AttributeError, idle, fresh_connection)
   \<and> handle_connection (example_env True) idle fresh_connection [Text ''[]'', Text ''{"action": "start"}''] =
       (Some AttributeError, idle,
        fresh_connection\<lparr>sent := [Msg ''info'' ''Connected to Video Processor'']\<rparr>)
   \<and> handle_message (example_env True) idle fresh_connection (Text ''{}'') =
       (None, idle, fresh_connection\<lparr>sent := [Msg ''error'' ''Unknown command: None'']\<rparr>)\<close>
  by (simp add: handle_message_def handle_connection_def send_def release_camera_def
        example_env_def example_loads_def fresh_connection_def idle_def)

end
